theory Spec2Isabelle
  imports Complex_Main
begin

section \<open>Python values of the inference handler\<close>

text \<open>
  The handler of \<^verbatim>\<open>lambda_function.py\<close> works on values that come out of
  \<^verbatim>\<open>json.loads\<close>: \<^verbatim>\<open>None\<close>, booleans, integers, floats, strings, lists and
  dictionaries. Floats are taken at their exact rational value, so the model covers the
  finite floats; NaN and the infinities are outside it. A dictionary is an association
  list read with \<open>map_of\<close>; \<^verbatim>\<open>bytes\<close> are character lists.
\<close>

type_synonym bytes = string

datatype pyval =
    PNone
  | PBool bool
  | PInt int
  | PFloat rat
  | PStr string
  | PList "pyval list"
  | PDict "(string \<times> pyval) list"

text \<open>
  Every exception the handler can meet. The first two are raised by the handler's own
  \<^verbatim>\<open>raise\<close> statements, the next seven by the interpreter's built-in operations,
  and \<open>Library\<close> stands for whatever a library call raises, with its \<^verbatim>\<open>str()\<close>.
\<close>

datatype exn =
    Missing_image_data
  | Probabilities_not_list pyval
  | No_attribute_get pyval
  | No_len pyval
  | Max_of_empty
  | Not_comparable pyval pyval
  | Not_in_list pyval
  | Bad_format pyval
  | Bad_round pyval
  | Library string

text \<open>The image object of the imaging library, as far as the handler can observe it.\<close>

record image =
  im_mode :: string
  im_size :: "nat \<times> nat"
  im_data :: bytes

text \<open>
  The configuration and the library calls of the module. The handler never looks inside
  them, so they are parameters: the two configuration strings read from the process
  environment, the two service clients, \<^verbatim>\<open>int()\<close>, \<^verbatim>\<open>json\<close>, \<^verbatim>\<open>base64\<close>,
  the imaging library, and the texts the interpreter gives for its own exceptions and for
  \<^verbatim>\<open>traceback.format_exc()\<close>. \<open>invoke_endpoint\<close> is the endpoint call together with
  the reading and UTF-8 decoding of its body.
\<close>

record env =
  SAGEMAKER_ENDPOINT_NAME :: string
  RESPONSE_TOPIC :: string
  iot_data_client :: bool
  py_int :: "string \<Rightarrow> int option"
  interp_str :: "exn \<Rightarrow> string"
  format_exc :: "exn \<Rightarrow> string"
  json_loads :: "string \<Rightarrow> exn + pyval"
  json_dumps :: "pyval \<Rightarrow> string"
  b64decode :: "pyval \<Rightarrow> exn + bytes"
  Image_open :: "bytes \<Rightarrow> exn + image"
  convert :: "image \<Rightarrow> string \<Rightarrow> exn + image"
  resize :: "image \<Rightarrow> nat \<times> nat \<Rightarrow> exn + image"
  save :: "image \<Rightarrow> string \<Rightarrow> exn + bytes"
  invoke_endpoint :: "string \<Rightarrow> string \<Rightarrow> bytes \<Rightarrow> exn + string"

text \<open>
  The module's two globals, and the calls made to \<^verbatim>\<open>iot_data_client.publish\<close> so
  far (topic, QoS, payload), oldest first.
\<close>

record process =
  IMAGENET_LABELS :: "string option list"
  LABELS_LOADED_SUCCESSFULLY :: bool
  published :: "(string \<times> nat \<times> string) list"

subsection \<open>Built-in operations\<close>

fun truthy :: "pyval \<Rightarrow> bool" where
  "truthy PNone = False"
| "truthy (PBool b) = b"
| "truthy (PInt n) = (n \<noteq> 0)"
| "truthy (PFloat x) = (x \<noteq> 0)"
| "truthy (PStr s) = (s \<noteq> [])"
| "truthy (PList xs) = (xs \<noteq> [])"
| "truthy (PDict d) = (d \<noteq> [])"

text \<open>\<^verbatim>\<open>v.get(k)\<close>: only a dictionary has the method.\<close>

fun dict_get :: "pyval \<Rightarrow> string \<Rightarrow> exn + pyval" where
  "dict_get (PDict d) k = Inr (case map_of d k of None \<Rightarrow> PNone | Some v \<Rightarrow> v)"
| "dict_get v k = Inl (No_attribute_get v)"

fun py_len :: "pyval \<Rightarrow> exn + nat" where
  "py_len (PStr s) = Inr (length s)"
| "py_len (PList xs) = Inr (length xs)"
| "py_len (PDict d) = Inr (length d)"
| "py_len v = Inl (No_len v)"

fun type_repr :: "pyval \<Rightarrow> string" where
  "type_repr PNone = ''<class 'NoneType'>''"
| "type_repr (PBool b) = ''<class 'bool'>''"
| "type_repr (PInt n) = ''<class 'int'>''"
| "type_repr (PFloat x) = ''<class 'float'>''"
| "type_repr (PStr s) = ''<class 'str'>''"
| "type_repr (PList xs) = ''<class 'list'>''"
| "type_repr (PDict d) = ''<class 'dict'>''"

text \<open>Booleans, integers and floats compare by their numeric value.\<close>

fun num_val :: "pyval \<Rightarrow> rat option" where
  "num_val (PBool b) = Some (if b then 1 else 0)"
| "num_val (PInt n) = Some (of_int n)"
| "num_val (PFloat x) = Some x"
| "num_val v = None"

text \<open>Strings are ordered by code point, character by character.\<close>

fun str_gt :: "string \<Rightarrow> string \<Rightarrow> bool" where
  "str_gt [] t = False"
| "str_gt (c # cs) [] = True"
| "str_gt (c # cs) (d # ds) =
     (if c = d then str_gt cs ds else (of_char d :: nat) < of_char c)"

text \<open>
  \<^verbatim>\<open>a == b\<close>. It never raises on these values. Two dictionaries are equal when they
  have as many items and every item of the first has an equal one under the same key in
  the second.
\<close>

fun py_eq :: "pyval \<Rightarrow> pyval \<Rightarrow> bool"
  and list_eq :: "pyval list \<Rightarrow> pyval list \<Rightarrow> bool"
  and dict_le :: "(string \<times> pyval) list \<Rightarrow> (string \<times> pyval) list \<Rightarrow> bool"
  and item_in :: "pyval \<Rightarrow> string \<Rightarrow> (string \<times> pyval) list \<Rightarrow> bool"
where
  "py_eq PNone b = (b = PNone)"
| "py_eq (PBool x) b = (case num_val b of Some y \<Rightarrow> (if x then 1 else 0) = y | None \<Rightarrow> False)"
| "py_eq (PInt i) b = (case num_val b of Some y \<Rightarrow> of_int i = y | None \<Rightarrow> False)"
| "py_eq (PFloat x) b = (case num_val b of Some y \<Rightarrow> x = y | None \<Rightarrow> False)"
| "py_eq (PStr s) b = (b = PStr s)"
| "py_eq (PList xs) b = (case b of PList ys \<Rightarrow> list_eq xs ys | _ \<Rightarrow> False)"
| "py_eq (PDict d) b =
     (case b of PDict d' \<Rightarrow> length d = length d' \<and> dict_le d d' | _ \<Rightarrow> False)"
| "list_eq [] ys = (ys = [])"
| "list_eq (x # xs) ys = (case ys of [] \<Rightarrow> False | y # ys' \<Rightarrow> py_eq x y \<and> list_eq xs ys')"
| "dict_le [] b = True"
| "dict_le ((k, v) # a) b = (item_in v k b \<and> dict_le a b)"
| "item_in v k [] = False"
| "item_in v k ((k', v') # r) = (if k = k' then py_eq v v' else item_in v k r)"

text \<open>
  \<^verbatim>\<open>a > b\<close>. Numbers compare with numbers, strings with strings, lists with lists
  (at the first position where they differ, else by length); every other pair raises
  \<^verbatim>\<open>TypeError\<close>.
\<close>

definition num_gt :: "rat \<Rightarrow> pyval \<Rightarrow> pyval \<Rightarrow> exn + bool" where
  "num_gt x a b = (case num_val b of Some y \<Rightarrow> Inr (y < x) | None \<Rightarrow> Inl (Not_comparable a b))"

fun py_gt :: "pyval \<Rightarrow> pyval \<Rightarrow> exn + bool"
  and list_gt :: "pyval list \<Rightarrow> pyval list \<Rightarrow> exn + bool"
where
  "py_gt PNone b = Inl (Not_comparable PNone b)"
| "py_gt (PBool x) b = num_gt (if x then 1 else 0) (PBool x) b"
| "py_gt (PInt i) b = num_gt (of_int i) (PInt i) b"
| "py_gt (PFloat x) b = num_gt x (PFloat x) b"
| "py_gt (PStr s) b =
     (case b of PStr t \<Rightarrow> Inr (str_gt s t) | _ \<Rightarrow> Inl (Not_comparable (PStr s) b))"
| "py_gt (PList xs) b =
     (case b of PList ys \<Rightarrow> list_gt xs ys | _ \<Rightarrow> Inl (Not_comparable (PList xs) b))"
| "py_gt (PDict d) b = Inl (Not_comparable (PDict d) b)"
| "list_gt [] ys = Inr False"
| "list_gt (x # xs) ys =
     (case ys of [] \<Rightarrow> Inr True
      | y # ys' \<Rightarrow> if py_eq x y then list_gt xs ys' else py_gt x y)"

text \<open>
  \<^verbatim>\<open>max(xs)\<close> keeps the first item and replaces it by a later one only when that
  one is greater; it raises \<^verbatim>\<open>ValueError\<close> on the empty list.
\<close>

fun max_loop :: "pyval \<Rightarrow> pyval list \<Rightarrow> exn + pyval" where
  "max_loop m [] = Inr m"
| "max_loop m (x # xs) =
     (case py_gt x m of Inl e \<Rightarrow> Inl e | Inr b \<Rightarrow> max_loop (if b then x else m) xs)"

definition py_max :: "pyval list \<Rightarrow> exn + pyval" where
  "py_max xs = (case xs of [] \<Rightarrow> Inl Max_of_empty | x # r \<Rightarrow> max_loop x r)"

text \<open>\<^verbatim>\<open>xs.index(v)\<close>: the position of the first item equal to \<open>v\<close>.\<close>

fun index_from :: "nat \<Rightarrow> pyval list \<Rightarrow> pyval \<Rightarrow> exn + nat" where
  "index_from i [] v = Inl (Not_in_list v)"
| "index_from i (x # xs) v = (if py_eq x v then Inr i else index_from (Suc i) xs v)"

definition py_index :: "pyval list \<Rightarrow> pyval \<Rightarrow> exn + nat" where
  "py_index xs v = index_from 0 xs v"

text \<open>
  The format specification \<^verbatim>\<open>.4f\<close> of the log line is accepted by numbers only; the
  text it produces goes to the log and nowhere else.
\<close>

fun format_4f :: "pyval \<Rightarrow> exn + unit" where
  "format_4f (PBool b) = Inr ()"
| "format_4f (PInt n) = Inr ()"
| "format_4f (PFloat x) = Inr ()"
| "format_4f v = Inl (Bad_format v)"

text \<open>
  \<^verbatim>\<open>round(x, n)\<close> leaves an integer as it is and rounds a float to the nearest
  multiple of \<open>10\<^sup>-\<^sup>n\<close>, a tie going to the even neighbour. (The interpreter then
  returns the float nearest to that decimal.)
\<close>

definition round_half_even :: "rat \<Rightarrow> int" where
  "round_half_even x =
     (let f = \<lfloor>x\<rfloor>; d = x - of_int f
      in if d < 1 / 2 then f else if 1 / 2 < d then f + 1 else if even f then f else f + 1)"

fun py_round :: "pyval \<Rightarrow> nat \<Rightarrow> exn + pyval" where
  "py_round (PBool b) n = Inr (PInt (if b then 1 else 0))"
| "py_round (PInt i) n = Inr (PInt i)"
| "py_round (PFloat x) n = Inr (PFloat (of_int (round_half_even (x * 10 ^ n)) / 10 ^ n))"
| "py_round v n = Inl (Bad_round v)"

text \<open>\<^verbatim>\<open>str(e)\<close>, as the f-strings of the error messages use it.\<close>

fun exn_str :: "env \<Rightarrow> exn \<Rightarrow> string" where
  "exn_str env Missing_image_data = ''Missing 'image_data' in event data''"
| "exn_str env (Probabilities_not_list v) =
     ''Value under 'probabilities' key is not a list, type: '' @ type_repr v"
| "exn_str env (Library s) = s"
| "exn_str env e = interp_str env e"

section \<open>Loading the label table\<close>

text \<open>
  What opening and reading the CSV file can give: no such file, some rows and then an
  exception, or all the rows (as \<^verbatim>\<open>csv.reader\<close> yields them).
\<close>

datatype csv_source =
    File_not_found
  | Read_failure "string list list"
  | Rows "string list list"

text \<open>
  The body of the row loop. A row that is not two fields long, whose first field
  \<^verbatim>\<open>int()\<close> rejects, or whose index is outside 0..999 changes nothing; an index seen
  before keeps its first label.
\<close>

definition process_row ::
  "env \<Rightarrow> string list \<Rightarrow> string option list \<times> nat \<Rightarrow> string option list \<times> nat" where
  "process_row env row acc =
     (case acc of (labels_temp, count) \<Rightarrow>
        if length row = 2 then
          (case py_int env (row ! 0) of
             None \<Rightarrow> (labels_temp, count)
           | Some index \<Rightarrow>
               if 0 \<le> index \<and> index < 1000 then
                 (if labels_temp ! nat index = None
                  then (labels_temp[nat index := Some (row ! 1)], count + 1)
                  else (labels_temp, count))
               else (labels_temp, count))
        else (labels_temp, count))"

fun read_rows ::
  "env \<Rightarrow> string list list \<Rightarrow> string option list \<times> nat \<Rightarrow> string option list \<times> nat" where
  "read_rows env [] acc = acc"
| "read_rows env (row # rows) acc = read_rows env rows (process_row env row acc)"

definition load_failed :: "process \<Rightarrow> process" where
  "load_failed p = p\<lparr>IMAGENET_LABELS := [], LABELS_LOADED_SUCCESSFULLY := False\<rparr>"

definition load_labels_from_csv :: "env \<Rightarrow> csv_source \<Rightarrow> process \<Rightarrow> process" where
  "load_labels_from_csv env src p =
     (case src of
        File_not_found \<Rightarrow> load_failed p
      | Read_failure rows \<Rightarrow> load_failed p
      | Rows rows \<Rightarrow>
          (case read_rows env rows (replicate 1000 None, 0) of (labels_temp, count) \<Rightarrow>
             if count = 1000 \<and> list_all (\<lambda>label. label \<noteq> None) labels_temp
             then p\<lparr>IMAGENET_LABELS := labels_temp, LABELS_LOADED_SUCCESSFULLY := True\<rparr>
             else load_failed p))"

text \<open>The module as imported: the two globals as declared, then the load.\<close>

definition module_init :: "env \<Rightarrow> csv_source \<Rightarrow> process" where
  "module_init env src =
     load_labels_from_csv env src
       \<lparr>IMAGENET_LABELS = [], LABELS_LOADED_SUCCESSFULLY = False, published = []\<rparr>"

section \<open>The inference handler\<close>

text \<open>
  \<^verbatim>\<open>publish_response\<close>: nothing without a topic or a client, else one publish call
  with QoS 1; whatever that call raises is caught and logged.
\<close>

definition publish_response :: "env \<Rightarrow> pyval \<Rightarrow> process \<Rightarrow> process" where
  "publish_response env payload_dict p =
     (if RESPONSE_TOPIC env = [] then p
      else if \<not> iot_data_client env then p
      else p\<lparr>published := published p @ [(RESPONSE_TOPIC env, 1, json_dumps env payload_dict)]\<rparr>)"

definition labels_error_message :: string where
  "labels_error_message =
     ''Error: ImageNet labels could not be loaded from the local CSV file during initialization. Cannot map probabilities to labels.''"

definition endpoint_error_message :: string where
  "endpoint_error_message = ''Error: SAGEMAKER_ENDPOINT_NAME configuration missing.''"

definition format_error_message :: string where
  "format_error_message =
     ''Error: Unexpected SageMaker response format. Expected a JSON object with a 'probabilities' key containing a list.''"

definition out_of_bounds_label :: string where
  "out_of_bounds_label = ''Error: Label index out of bounds or mapping failed''"

text \<open>The dictionary every \<^verbatim>\<open>return\<close> of the handler builds.\<close>

definition http_return :: "env \<Rightarrow> int \<Rightarrow> pyval \<Rightarrow> pyval" where
  "http_return env code payload =
     PDict [(''statusCode'', PInt code), (''body'', PStr (json_dumps env payload))]"

text \<open>The shared shape of the first four \<^verbatim>\<open>except\<close> blocks: publish, then return.\<close>

definition error_return :: "env \<Rightarrow> int \<Rightarrow> string \<Rightarrow> process \<Rightarrow> pyval \<times> process" where
  "error_return env code error_message p =
     (let error_payload_dict = PDict [(''error'', PStr error_message)]
      in (http_return env code error_payload_dict, publish_response env error_payload_dict p))"

text \<open>Step 1, the body of the first \<^verbatim>\<open>try\<close>.\<close>

definition extract_image_data :: "env \<Rightarrow> pyval \<Rightarrow> exn + pyval" where
  "extract_image_data env event =
     (case (case event of PStr s \<Rightarrow> json_loads env s | _ \<Rightarrow> Inr event) of
        Inl e \<Rightarrow> Inl e
      | Inr event_data \<Rightarrow>
          (case dict_get event_data ''image_data'' of
             Inl e \<Rightarrow> Inl e
           | Inr image_b64 \<Rightarrow>
               if \<not> truthy image_b64 then Inl Missing_image_data else Inr image_b64))"

text \<open>Step 3, the body of the third \<^verbatim>\<open>try\<close>.\<close>

definition preprocess_image :: "env \<Rightarrow> bytes \<Rightarrow> exn + bytes" where
  "preprocess_image env image_bytes =
     (case Image_open env image_bytes of
        Inl e \<Rightarrow> Inl e
      | Inr opened \<Rightarrow>
          (case convert env opened ''RGB'' of
             Inl e \<Rightarrow> Inl e
           | Inr rgb \<Rightarrow>
               (case resize env rgb (224, 224) of
                  Inl e \<Rightarrow> Inl e
                | Inr resized \<Rightarrow> save env resized ''JPEG'')))"

text \<open>Steps 5 and 6: from the probability list to the output payload.\<close>

definition map_probabilities :: "string option list \<Rightarrow> pyval list \<Rightarrow> exn + pyval" where
  "map_probabilities labels sagemaker_probabilities =
     (case py_max sagemaker_probabilities of
        Inl e \<Rightarrow> Inl e
      | Inr max_prob \<Rightarrow>
          (case py_index sagemaker_probabilities max_prob of
             Inl e \<Rightarrow> Inl e
           | Inr predicted_index \<Rightarrow>
               (case format_4f max_prob of
                  Inl e \<Rightarrow> Inl e
                | Inr u \<Rightarrow>
                    (case py_round max_prob 4 of
                       Inl e \<Rightarrow> Inl e
                     | Inr confidence \<Rightarrow>
                         Inr (PDict
                           [(''prediction'',
                             if predicted_index < length labels
                             then (case labels ! predicted_index of
                                     Some l \<Rightarrow> PStr l | None \<Rightarrow> PNone)
                             else PStr out_of_bounds_label),
                            (''confidence'', confidence)])))))"

text \<open>
  Steps 4 to 6, the body of the last \<^verbatim>\<open>try\<close> up to the payload: the status code and
  the payload it goes on to publish and return, or the exception it raises.
\<close>

definition invoke_and_map :: "env \<Rightarrow> process \<Rightarrow> bytes \<Rightarrow> exn + int \<times> pyval" where
  "invoke_and_map env p processed_image =
     (case invoke_endpoint env (SAGEMAKER_ENDPOINT_NAME env) ''application/x-image''
             processed_image of
        Inl e \<Rightarrow> Inl e
      | Inr sagemaker_result_str \<Rightarrow>
          (case json_loads env sagemaker_result_str of
             Inl e \<Rightarrow> Inl e
           | Inr sagemaker_parsed_data \<Rightarrow>
               (case (case sagemaker_parsed_data of
                        PDict d \<Rightarrow> map_of d ''probabilities'' | _ \<Rightarrow> None) of
                  None \<Rightarrow> Inr (502, PDict [(''error'', PStr format_error_message)])
                | Some sagemaker_probabilities \<Rightarrow>
                    (case py_len sagemaker_probabilities of
                       Inl e \<Rightarrow> Inl e
                     | Inr n \<Rightarrow>
                         (case sagemaker_probabilities of
                            PList ps \<Rightarrow>
                              (case map_probabilities (IMAGENET_LABELS p) ps of
                                 Inl e \<Rightarrow> Inl e
                               | Inr output_payload \<Rightarrow> Inr (200, output_payload))
                          | _ \<Rightarrow> Inl (Probabilities_not_list sagemaker_probabilities))))))"

definition lambda_handler :: "env \<Rightarrow> pyval \<Rightarrow> process \<Rightarrow> pyval \<times> process" where
  "lambda_handler env event p =
     (if \<not> LABELS_LOADED_SUCCESSFULLY p then error_return env 500 labels_error_message p
      else if SAGEMAKER_ENDPOINT_NAME env = [] then
        (http_return env 500 (PDict [(''error'', PStr endpoint_error_message)]), p)
      else
        (case extract_image_data env event of
           Inl e \<Rightarrow> error_return env 400 (''Error parsing event data: '' @ exn_str env e) p
         | Inr image_b64 \<Rightarrow>
             (case b64decode env image_b64 of
                Inl e \<Rightarrow>
                  error_return env 400 (''Error decoding base64 image: '' @ exn_str env e) p
              | Inr image_bytes \<Rightarrow>
                  (case preprocess_image env image_bytes of
                     Inl e \<Rightarrow>
                       error_return env 500 (''Image preprocessing failed: '' @ exn_str env e) p
                   | Inr processed_image \<Rightarrow>
                       (case invoke_and_map env p processed_image of
                          Inl e \<Rightarrow>
                            (let error_payload_dict = PDict
                               [(''error'', PStr
                                  (''Unhandled exception during SageMaker interaction or result processing: ''
                                   @ exn_str env e)),
                                (''traceback'', PStr (format_exc env e))]
                             in (http_return env 500 error_payload_dict,
                                 publish_response env error_payload_dict p))
                        | Inr (code, output_payload) \<Rightarrow>
                            (http_return env code output_payload,
                             publish_response env output_payload p))))))"


section \<open>Serving requests\<close>

text \<open>
  The runtime imports the module once and then calls the handler for one event after
  another; \<open>serve\<close> collects the returned values and threads the process through.
\<close>

fun serve :: "env \<Rightarrow> pyval list \<Rightarrow> process \<Rightarrow> pyval list \<times> process" where
  "serve env [] p = ([], p)"
| "serve env (event # events) p =
     (case lambda_handler env event p of (r, p') \<Rightarrow>
        (case serve env events p' of (rs, p'') \<Rightarrow> (r # rs, p'')))"

section \<open>Notions used to state the properties\<close>

text \<open>The label of the first well-formed row that carries index \<open>i\<close>.\<close>

fun first_label :: "env \<Rightarrow> string list list \<Rightarrow> nat \<Rightarrow> string option" where
  "first_label env [] i = None"
| "first_label env (row # rows) i =
     (if length row = 2 \<and> py_int env (row ! 0) = Some (int i) then Some (row ! 1)
      else first_label env rows i)"

text \<open>The number of entries of the temporary table that hold a label.\<close>

definition filled :: "string option list \<Rightarrow> nat" where
  "filled t = length (filter (\<lambda>l. l \<noteq> None) t)"

text \<open>
  The value of \<^verbatim>\<open>count\<close> when the row loop stops: the number of valid label rows
  loaded, as the log lines of \<^verbatim>\<open>load_labels_from_csv\<close> call it.
\<close>

definition valid_label_rows :: "env \<Rightarrow> csv_source \<Rightarrow> nat" where
  "valid_label_rows env src =
     (case src of
        File_not_found \<Rightarrow> 0
      | Read_failure rows \<Rightarrow> snd (read_rows env rows (replicate 1000 None, 0))
      | Rows rows \<Rightarrow> snd (read_rows env rows (replicate 1000 None, 0)))"

text \<open>A probability is a number; \<open>score\<close> reads its value.\<close>

definition numeric :: "pyval \<Rightarrow> bool" where
  "numeric v = (num_val v \<noteq> None)"

definition score :: "pyval \<Rightarrow> rat" where
  "score v = (case num_val v of Some x \<Rightarrow> x | None \<Rightarrow> 0)"

text \<open>
  Position \<open>i\<close> holds a maximum of \<open>xs\<close> and no earlier position does: the arg-max
  with ties resolved by first occurrence.
\<close>

definition is_first_max :: "rat list \<Rightarrow> nat \<Rightarrow> bool" where
  "is_first_max xs i =
     (i < length xs \<and> (\<forall>j < length xs. xs ! j \<le> xs ! i) \<and> (\<forall>j < i. xs ! j < xs ! i))"

text \<open>The value the handler puts under \<^verbatim>\<open>'prediction'\<close> for a table entry.\<close>

definition label_value :: "string option \<Rightarrow> pyval" where
  "label_value entry = (case entry of Some l \<Rightarrow> PStr l | None \<Rightarrow> PNone)"

section \<open>A concrete deployment\<close>

text \<open>
  Stand-ins for the libraries and services, used to run the handler on concrete events:
  a decimal \<^verbatim>\<open>int()\<close>, a JSON printer, the base64 decoder in its default lenient
  mode, an image library that recognises the JPEG start-of-image marker, and an endpoint
  that answers with a fixed probability vector.
\<close>

definition digit_val :: "char \<Rightarrow> nat option" where
  "digit_val c =
     (if 48 \<le> (of_char c :: nat) \<and> (of_char c :: nat) \<le> 57 then Some (of_char c - 48)
      else None)"

fun parse_digits :: "nat \<Rightarrow> string \<Rightarrow> nat option" where
  "parse_digits acc [] = Some acc"
| "parse_digits acc (c # cs) =
     (case digit_val c of None \<Rightarrow> None | Some d \<Rightarrow> parse_digits (10 * acc + d) cs)"

definition demo_int :: "string \<Rightarrow> int option" where
  "demo_int s =
     (case s of
        [] \<Rightarrow> None
      | c # cs \<Rightarrow>
          if (of_char c :: nat) = 45
          then (if cs = [] then None else map_option (\<lambda>n. - int n) (parse_digits 0 cs))
          else map_option int (parse_digits 0 s))"

definition dec3 :: "nat \<Rightarrow> string" where
  "dec3 i = [char_of (48 + i div 100), char_of (48 + i div 10 mod 10), char_of (48 + i mod 10)]"

definition demo_label :: "nat \<Rightarrow> string" where
  "demo_label i = ''class '' @ dec3 i"

text \<open>A label file with one row per index, \<^verbatim>\<open>000,class 000\<close> to \<^verbatim>\<open>999,class 999\<close>.\<close>

definition demo_rows :: "string list list" where
  "demo_rows = map (\<lambda>i. [dec3 i, demo_label i]) [0..<1000]"

definition demo_process :: process where
  "demo_process =
     \<lparr>IMAGENET_LABELS = map (\<lambda>i. Some (demo_label i)) [0..<1000],
      LABELS_LOADED_SUCCESSFULLY = True, published = []\<rparr>"

fun nat_digits :: "nat \<Rightarrow> nat \<Rightarrow> string" where
  "nat_digits 0 n = []"
| "nat_digits (Suc fuel) n =
     (if n < 10 then [char_of (48 + n)]
      else nat_digits fuel (n div 10) @ [char_of (48 + n mod 10)])"

definition int_text :: "int \<Rightarrow> string" where
  "int_text i =
     (if i < 0 then CHR ''-'' # nat_digits (Suc (nat (- i))) (nat (- i))
      else nat_digits (Suc (nat i)) (nat i))"

fun fraction_digits :: "nat \<Rightarrow> rat \<Rightarrow> string" where
  "fraction_digits 0 r = []"
| "fraction_digits (Suc fuel) r =
     (let d = \<lfloor>r * 10\<rfloor>; r' = r * 10 - of_int d
      in char_of (48 + nat d) # (if r' = 0 then [] else fraction_digits fuel r'))"

definition float_text :: "rat \<Rightarrow> string" where
  "float_text x =
     (let a = \<bar>x\<bar>
      in (if x < 0 then ''-'' else []) @ int_text \<lfloor>a\<rfloor> @ ''.'' @
         fraction_digits 17 (a - of_int \<lfloor>a\<rfloor>))"

fun quoted :: "string \<Rightarrow> string" where
  "quoted [] = []"
| "quoted (c # cs) =
     (if (of_char c :: nat) = 34 \<or> (of_char c :: nat) = 92 then char_of (92 :: nat) # c # quoted cs
      else c # quoted cs)"

definition string_text :: "string \<Rightarrow> string" where
  "string_text s = char_of (34 :: nat) # quoted s @ [char_of (34 :: nat)]"

fun to_json :: "pyval \<Rightarrow> string"
  and list_json :: "pyval list \<Rightarrow> string"
  and dict_json :: "(string \<times> pyval) list \<Rightarrow> string"
where
  "to_json PNone = ''null''"
| "to_json (PBool b) = (if b then ''true'' else ''false'')"
| "to_json (PInt i) = int_text i"
| "to_json (PFloat x) = float_text x"
| "to_json (PStr s) = string_text s"
| "to_json (PList xs) = ''['' @ list_json xs @ '']''"
| "to_json (PDict d) = ''{'' @ dict_json d @ ''}''"
| "list_json [] = []"
| "list_json (x # xs) = to_json x @ (if xs = [] then [] else '', '' @ list_json xs)"
| "dict_json [] = []"
| "dict_json ((k, v) # d) =
     string_text k @ '': '' @ to_json v @ (if d = [] then [] else '', '' @ dict_json d)"

declare to_json.simps [simp del]

text \<open>
  The base64 decoder in its default mode: characters outside the alphabet are skipped,
  a byte is emitted as soon as its bits are complete, padding ends the input once a
  group has two characters or more, and a group left incomplete is an error.
\<close>

fun index_of :: "char \<Rightarrow> string \<Rightarrow> nat \<Rightarrow> nat option" where
  "index_of c [] n = None"
| "index_of c (a # as) n = (if c = a then Some n else index_of c as (Suc n))"

definition b64_value :: "char \<Rightarrow> nat option" where
  "b64_value c =
     index_of c ''ABCDEFGHIJKLMNOPQRSTUVWXYZabcdefghijklmnopqrstuvwxyz0123456789+/'' 0"

fun a2b_base64 :: "nat \<Rightarrow> nat \<Rightarrow> nat \<Rightarrow> string \<Rightarrow> exn + bytes" where
  "a2b_base64 quad_pos leftchar pads [] =
     (if quad_pos = 0 then Inr []
      else if quad_pos = 1 then Inl (Library ''Invalid base64-encoded string: number of data characters cannot be 1 more than a multiple of 4'')
      else Inl (Library ''Incorrect padding''))"
| "a2b_base64 quad_pos leftchar pads (c # cs) =
     (if (of_char c :: nat) = 61 then
        (if 2 \<le> quad_pos \<and> 4 \<le> quad_pos + (pads + 1) then Inr []
         else a2b_base64 quad_pos leftchar (if 2 \<le> quad_pos then pads + 1 else pads) cs)
      else
        (case b64_value c of
           None \<Rightarrow> a2b_base64 quad_pos leftchar pads cs
         | Some v \<Rightarrow>
             if quad_pos = 0 then a2b_base64 1 v 0 cs
             else if quad_pos = 1 then
               map_sum id ((#) (char_of (leftchar * 4 + v div 16))) (a2b_base64 2 (v mod 16) 0 cs)
             else if quad_pos = 2 then
               map_sum id ((#) (char_of (leftchar * 16 + v div 4))) (a2b_base64 3 (v mod 4) 0 cs)
             else
               map_sum id ((#) (char_of (leftchar * 64 + v))) (a2b_base64 0 0 0 cs)))"

definition demo_b64decode :: "pyval \<Rightarrow> exn + bytes" where
  "demo_b64decode v =
     (case v of
        PStr s \<Rightarrow>
          if list_all (\<lambda>c. (of_char c :: nat) < 128) s then a2b_base64 0 0 0 s
          else Inl (Library ''string argument should contain only ASCII characters'')
      | _ \<Rightarrow> Inl (Library ''argument should be a bytes-like object or ASCII string''))"

definition demo_open :: "bytes \<Rightarrow> exn + image" where
  "demo_open bs =
     (if map of_char (take 2 bs) = [255, 216 :: nat]
      then Inr \<lparr>im_mode = ''L'', im_size = (640, 480), im_data = bs\<rparr>
      else Inl (Library ''cannot identify image file''))"

definition demo_convert :: "image \<Rightarrow> string \<Rightarrow> exn + image" where
  "demo_convert im m = Inr (im\<lparr>im_mode := m\<rparr>)"

definition demo_resize :: "image \<Rightarrow> nat \<times> nat \<Rightarrow> exn + image" where
  "demo_resize im sz = Inr (im\<lparr>im_size := sz\<rparr>)"

definition demo_save :: "image \<Rightarrow> string \<Rightarrow> exn + bytes" where
  "demo_save im fmt = Inr (fmt @ '':'' @ im_mode im @ '':'' @ im_data im)"

text \<open>A probability vector of the table's length, with its maximum at positions 7 and 9.\<close>

definition demo_scores :: "pyval list" where
  "demo_scores = map (\<lambda>i. PFloat (if i = 7 \<or> i = 9 then 9 / 10 else 1 / 10000)) [0..<1000]"

definition demo_result :: pyval where
  "demo_result = PDict [(''probabilities'', PList demo_scores)]"

definition short_result :: pyval where
  "short_result = PDict [(''probabilities'', PList [PFloat (1 / 10), PFloat (9 / 10)])]"

definition demo_loads :: "pyval \<Rightarrow> string \<Rightarrow> exn + pyval" where
  "demo_loads answer s =
     (if s = to_json answer then Inr answer
      else Inl (Library ''Expecting value: line 1 column 1 (char 0)''))"

definition demo_env :: env where
  "demo_env =
     \<lparr>SAGEMAKER_ENDPOINT_NAME = ''jumpstart-dft-mobilenet-v2-100-224-20250423-113843'',
      RESPONSE_TOPIC = ''device/image/response'',
      iot_data_client = True,
      py_int = demo_int,
      interp_str = (\<lambda>e. ''interpreter error''),
      format_exc = (\<lambda>e. ''Traceback (most recent call last): ...''),
      json_loads = demo_loads demo_result,
      json_dumps = to_json,
      b64decode = demo_b64decode,
      Image_open = demo_open,
      convert = demo_convert,
      resize = demo_resize,
      save = demo_save,
      invoke_endpoint = (\<lambda>name content_type body. Inr (to_json demo_result))\<rparr>"

text \<open>The same deployment with an endpoint that answers with two probabilities only.\<close>

definition short_env :: env where
  "short_env =
     demo_env\<lparr>json_loads := demo_loads short_result,
              invoke_endpoint := (\<lambda>name content_type body. Inr (to_json short_result))\<rparr>"

text \<open>The same deployment with an endpoint that cannot be reached.\<close>

definition down_env :: env where
  "down_env =
     demo_env\<lparr>invoke_endpoint :=
       (\<lambda>name content_type body. Inl (Library ''Could not connect to the endpoint URL''))\<rparr>"

text \<open>The same deployment with the endpoint name set to the empty string.\<close>

definition unnamed_env :: env where
  "unnamed_env = demo_env\<lparr>SAGEMAKER_ENDPOINT_NAME := []\<rparr>"

text \<open>
  Three events: the first three bytes of a JPEG file, the text \<^verbatim>\<open>hello\<close>, and an
  event without image data.
\<close>

definition jpeg_event :: pyval where
  "jpeg_event = PDict [(''image_data'', PStr ''/9j/'')]"

definition hello_event :: pyval where
  "hello_event = PDict [(''image_data'', PStr ''aGVsbG8='')]"

definition empty_event :: pyval where
  "empty_event = PDict []"

section \<open>The device publisher\<close>

text \<open>
  \<^verbatim>\<open>pub2.py\<close> from \<^verbatim>\<open>loop_start()\<close> on. The MQTT client calls \<^verbatim>\<open>on_connect\<close>
  on its network thread; the main thread only reads the two globals the callback writes.
  What an execution does is the list of its events: the callbacks with their return
  codes, the publish calls with their message numbers, and the exit with its status.
\<close>

datatype event = Callback int | Publish nat | Exit int

record conn =
  connection_established :: bool
  connection_error_code :: "int option"

text \<open>The callback: the flag is set true by return code 0 only, which also clears the code.\<close>

definition on_connect :: "int \<Rightarrow> conn \<Rightarrow> conn" where
  "on_connect rc g =
     (if rc = 0 then g\<lparr>connection_established := True, connection_error_code := None\<rparr>
      else g\<lparr>connection_established := False, connection_error_code := Some rc\<rparr>)"

text \<open>The callbacks that run between two reads of the main thread, in order.\<close>

fun deliver :: "int list \<Rightarrow> conn \<Rightarrow> conn" where
  "deliver [] g = g"
| "deliver (rc # rcs) g = deliver rcs (on_connect rc g)"






section \<open>Properties of the label loader\<close>

lemma process_row_length: "length (fst (process_row env row (t, c))) = length t"
  by (simp add: process_row_def split: option.splits)

lemma filled_update:
  "i < length t \<Longrightarrow> t ! i = None \<Longrightarrow> filled (t[i := Some x]) = Suc (filled t)"
proof (induction t arbitrary: i)
  case Nil
  then show ?case by simp
next
  case (Cons a t)
  then show ?case by (cases i) (auto simp: filled_def)
qed

lemma filled_full:
  assumes "filled t = length t"
  shows "list_all (\<lambda>l. l \<noteq> None) t"
proof (rule ccontr)
  assume "\<not> list_all (\<lambda>l. l \<noteq> None) t"
  then obtain x where "x \<in> set t" and "\<not> x \<noteq> None"
    by (auto simp: list_all_iff)
  then have "length (filter (\<lambda>l. l \<noteq> None) t) < length t"
    by (rule length_filter_less)
  with assms show False by (simp add: filled_def)
qed

lemma process_row_cases:
  assumes "length t = 1000"
  shows "process_row env row (t, c) = (t, c)
       \<or> (\<exists>k l. k < length t \<and> t ! k = None
             \<and> process_row env row (t, c) = (t[k := Some l], Suc c))"
proof (cases "length row = 2")
  case False
  then show ?thesis by (simp add: process_row_def)
next
  case two: True
  show ?thesis
  proof (cases "py_int env (row ! 0)")
    case None
    with two show ?thesis by (simp add: process_row_def)
  next
    case (Some k)
    show ?thesis
    proof (cases "0 \<le> k \<and> k < 1000 \<and> t ! nat k = None")
      case False
      with two Some show ?thesis by (auto simp: process_row_def)
    next
      case True
      then have bound: "nat k < length t" using assms by arith
      from two Some True
      have "process_row env row (t, c) = (t[nat k := Some (row ! 1)], Suc c)"
        by (simp add: process_row_def)
      with bound True show ?thesis by blast
    qed
  qed
qed

lemma process_row_count:
  assumes "length t = 1000" and "c = filled t" and "process_row env row (t, c) = (t', c')"
  shows "length t' = 1000 \<and> c' = filled t'"
proof -
  from process_row_cases [OF assms(1), of env row c]
  consider "process_row env row (t, c) = (t, c)"
    | k l where "k < length t" "t ! k = None"
        "process_row env row (t, c) = (t[k := Some l], Suc c)"
    by blast
  then show ?thesis
  proof cases
    case 1
    with assms(3) have "t' = t" and "c' = c" by simp_all
    with assms(1,2) show ?thesis by simp
  next
    case 2
    from 2(3) assms(3) have "t' = t[k := Some l]" and "c' = Suc c" by simp_all
    with assms(1,2) filled_update [OF 2(1) 2(2), of l] show ?thesis by simp
  qed
qed

lemma read_rows_count:
  "length t = 1000 \<Longrightarrow> c = filled t \<Longrightarrow> read_rows env rows (t, c) = (t', c') \<Longrightarrow>
     length t' = 1000 \<and> c' = filled t'"
proof (induction rows arbitrary: t c)
  case Nil
  from Nil.prems(3) have "t' = t" and "c' = c" by simp_all
  with Nil.prems(1,2) show ?case by blast
next
  case (Cons row rows)
  obtain t1 c1 where step: "process_row env row (t, c) = (t1, c1)"
    by (cases "process_row env row (t, c)")
  from process_row_count [OF Cons.prems(1) Cons.prems(2) step]
  have "length t1 = 1000" and "c1 = filled t1" by simp_all
  moreover from Cons.prems(3) step have "read_rows env rows (t1, c1) = (t', c')" by simp
  ultimately show ?case by (rule Cons.IH)
qed

lemma process_row_nth:
  assumes "length t = 1000" and "i < 1000"
  shows "fst (process_row env row (t, c)) ! i =
           (case t ! i of
              Some l \<Rightarrow> Some l
            | None \<Rightarrow>
                if length row = 2 \<and> py_int env (row ! 0) = Some (int i) then Some (row ! 1)
                else None)"
proof (cases "length row = 2")
  case False
  then show ?thesis by (simp add: process_row_def split: option.splits)
next
  case two: True
  show ?thesis
  proof (cases "py_int env (row ! 0)")
    case None
    with two show ?thesis by (simp add: process_row_def split: option.splits)
  next
    case (Some k)
    show ?thesis
    proof (cases "0 \<le> k \<and> k < 1000")
      case False
      then have "k \<noteq> int i" using assms(2) by auto
      with two Some False show ?thesis
        by (auto simp: process_row_def split: option.splits)
    next
      case True
      then have bound: "nat k < length t" using assms(1) by arith
      from True have same: "nat k = i \<longleftrightarrow> k = int i" by auto
      from two Some True bound same show ?thesis
        by (auto simp: process_row_def nth_list_update split: option.splits)
    qed
  qed
qed

lemma read_rows_nth:
  "length t = 1000 \<Longrightarrow> i < 1000 \<Longrightarrow>
     fst (read_rows env rows (t, c)) ! i =
       (case t ! i of Some l \<Rightarrow> Some l | None \<Rightarrow> first_label env rows i)"
proof (induction rows arbitrary: t c)
  case Nil
  then show ?case by (simp split: option.splits)
next
  case (Cons row rows)
  obtain t1 c1 where step: "process_row env row (t, c) = (t1, c1)"
    by (cases "process_row env row (t, c)")
  have len: "length t1 = 1000"
    using process_row_length [of env row t c] step Cons.prems(1) by simp
  have at: "t1 ! i =
      (case t ! i of
         Some l \<Rightarrow> Some l
       | None \<Rightarrow>
           if length row = 2 \<and> py_int env (row ! 0) = Some (int i) then Some (row ! 1)
           else None)"
    using process_row_nth [OF Cons.prems(1) Cons.prems(2), of env row c] step by simp
  have "fst (read_rows env (row # rows) (t, c)) ! i = fst (read_rows env rows (t1, c1)) ! i"
    using step by simp
  also have "\<dots> = (case t1 ! i of Some l \<Rightarrow> Some l | None \<Rightarrow> first_label env rows i)"
    using Cons.IH [OF len Cons.prems(2)] .
  also have "\<dots> = (case t ! i of Some l \<Rightarrow> Some l | None \<Rightarrow> first_label env (row # rows) i)"
    using at by (simp split: option.splits)
  finally show ?case .
qed

lemma read_rows_from_empty:
  assumes "read_rows env rows (replicate 1000 None, 0) = (t, c)"
  shows "length t = 1000" and "c = filled t" and "\<forall>i<1000. t ! i = first_label env rows i"
proof -
  have start: "length (replicate 1000 (None :: string option)) = 1000"
    and zero: "(0::nat) = filled (replicate 1000 None)"
    by (simp_all add: filled_def)
  from read_rows_count [OF start zero assms] show "length t = 1000" and "c = filled t"
    by simp_all
  show "\<forall>i<1000. t ! i = first_label env rows i"
  proof (intro allI impI)
    fix i :: nat
    assume "i < 1000"
    from read_rows_nth [OF start this, of env rows 0] assms \<open>i < 1000\<close>
    show "t ! i = first_label env rows i" by simp
  qed
qed

lemma count_at_most_1000: "valid_label_rows env src \<le> 1000"
proof -
  have "snd (read_rows env rows (replicate 1000 None, 0)) \<le> 1000" for rows
  proof -
    obtain t c where run: "read_rows env rows (replicate 1000 None, 0) = (t, c)"
      by (cases "read_rows env rows (replicate 1000 None, 0)")
    from read_rows_from_empty(1,2) [OF run] have "c \<le> 1000"
      using length_filter_le [of "\<lambda>l. l \<noteq> None" t] by (simp add: filled_def)
    with run show ?thesis by simp
  qed
  then show ?thesis by (simp add: valid_label_rows_def split: csv_source.splits)
qed

lemma load_flag_iff:
  "LABELS_LOADED_SUCCESSFULLY (load_labels_from_csv env src p) \<longleftrightarrow>
     (\<exists>rows. src = Rows rows) \<and> valid_label_rows env src = 1000"
proof (cases src)
  case File_not_found
  then show ?thesis by (simp add: load_labels_from_csv_def load_failed_def)
next
  case (Read_failure rows)
  then show ?thesis by (simp add: load_labels_from_csv_def load_failed_def)
next
  case (Rows rows)
  obtain t c where run: "read_rows env rows (replicate 1000 None, 0) = (t, c)"
    by (cases "read_rows env rows (replicate 1000 None, 0)")
  from read_rows_from_empty(1,2) [OF run] have "c = 1000 \<Longrightarrow> list_all (\<lambda>l. l \<noteq> None) t"
    using filled_full [of t] by simp
  with Rows run show ?thesis
    by (auto simp: load_labels_from_csv_def load_failed_def valid_label_rows_def)
qed

text \<open>
  \<^bold>\<open>C10.\<close> Label loading is all-or-nothing. Whatever the file holds (or if there is no
  file), after \<^verbatim>\<open>load_labels_from_csv\<close> either the flag is true and the table has
  exactly 1000 entries, none of them \<^verbatim>\<open>None\<close>, entry \<open>i\<close> being the label of the
  first well-formed row with index \<open>i\<close> (later rows with that index, malformed rows and
  rows with an index outside 0..999 leave no trace), or the flag is false and the table
  is empty.
\<close>

theorem load_all_or_nothing:
  "(LABELS_LOADED_SUCCESSFULLY (load_labels_from_csv env src p)
      \<and> length (IMAGENET_LABELS (load_labels_from_csv env src p)) = 1000
      \<and> (\<exists>rows. src = Rows rows
           \<and> (\<forall>i<1000. \<exists>l. first_label env rows i = Some l
                 \<and> IMAGENET_LABELS (load_labels_from_csv env src p) ! i = Some l)))
   \<or> (\<not> LABELS_LOADED_SUCCESSFULLY (load_labels_from_csv env src p)
      \<and> IMAGENET_LABELS (load_labels_from_csv env src p) = [])"
proof (cases src)
  case File_not_found
  then show ?thesis by (simp add: load_labels_from_csv_def load_failed_def)
next
  case (Read_failure rows)
  then show ?thesis by (simp add: load_labels_from_csv_def load_failed_def)
next
  case (Rows rows)
  obtain t c where run: "read_rows env rows (replicate 1000 None, 0) = (t, c)"
    by (cases "read_rows env rows (replicate 1000 None, 0)")
  note facts = read_rows_from_empty [OF run]
  show ?thesis
  proof (cases "c = 1000 \<and> list_all (\<lambda>label. label \<noteq> None) t")
    case False
    with Rows run show ?thesis by (auto simp: load_labels_from_csv_def load_failed_def)
  next
    case True
    then have full: "\<forall>l\<in>set t. l \<noteq> None" by (simp add: list_all_iff)
    have each: "\<exists>l. first_label env rows i = Some l \<and> t ! i = Some l" if "i < 1000" for i
    proof -
      from that facts(1) have "t ! i \<in> set t" by simp
      with full obtain l where "t ! i = Some l" by auto
      with facts(3) that show ?thesis by auto
    qed
    from Rows run True facts(1) each show ?thesis
      by (simp add: load_labels_from_csv_def)
  qed
qed

theorem load_all_or_nothing_witness:
  "\<not> LABELS_LOADED_SUCCESSFULLY
       (load_labels_from_csv demo_env
          (Rows [[''000'', ''tench''], [''000'', ''goldfish''], [''1000'', ''shark''], [''ray'']])
          demo_process)
   \<and> IMAGENET_LABELS
       (load_labels_from_csv demo_env
          (Rows [[''000'', ''tench''], [''000'', ''goldfish''], [''1000'', ''shark''], [''ray'']])
          demo_process) = []"
  using load_all_or_nothing
    [of demo_env
        "Rows [[''000'', ''tench''], [''000'', ''goldfish''], [''1000'', ''shark''], [''ray'']]"
        demo_process]
  by (simp add: load_labels_from_csv_def load_failed_def process_row_def demo_env_def
        demo_int_def digit_val_def)

section \<open>Properties of the device publisher\<close>

lemma deliver_append: "deliver (xs @ ys) g = deliver ys (deliver xs g)"
  by (induction xs arbitrary: g) simp_all


lemma deliver_last:
  "connection_error_code (deliver (rcs @ [rc]) g) \<noteq> None \<longleftrightarrow> rc \<noteq> 0"
  by (simp add: deliver_append on_connect_def)









end
